theory Spec2Isabelle
  imports Complex_Main
begin

section \<open>Celestial-Orbit-Visualizer: orbit sampling and animation frames\<close>

text \<open>
  The repository holds two Python scripts, \<^verbatim>\<open>simulator.py\<close> (a script that builds one
  figure) and \<^verbatim>\<open>dash simulation.py\<close> (a Dash application whose callback
  \<^verbatim>\<open>update_orbit\<close> builds the same kind of figure from three slider values). Both
  construct a poliastro orbit, take its period, sample 100 time offsets with
  \<^verbatim>\<open>np.linspace\<close>, propagate the orbit to each offset and assemble plotly traces and
  animation frames from the positions.

  Floating-point numbers are modelled as reals, lengths are in kilometres, times in
  seconds and angles in degrees (the astropy units of the scripts are dropped). The
  figure layout (titles, axis labels, play/pause buttons, size menus) carries no sample
  data and is not modelled.
\<close>

subsection \<open>Library data: bodies, orbits, errors\<close>

type_synonym vec3 = "real \<times> real \<times> real"

text \<open>A poliastro body: gravitational parameter \<^verbatim>\<open>k\<close> (km^3/s^2) and radius \<^verbatim>\<open>R\<close> (km).\<close>

record body =
  body_k :: real
  body_R :: real

text \<open>\<^verbatim>\<open>poliastro.bodies.Earth\<close>, with the library's constants GM_earth and R_earth.\<close>

definition Earth :: body where
  "Earth = \<lparr>body_k = 3986004418 / 10000, body_R = 63781366 / 10000\<rparr>"

text \<open>Python exceptions are values; the scripts catch nothing, so an exception ends the run.\<close>

datatype error = ValueError string

text \<open>An \<^verbatim>\<open>Orbit\<close> object: the attractor and the classical elements it was built from.\<close>

record orbit =
  attractor :: body
  sm_axis :: real
  ecc :: real
  inc :: real
  raan :: real
  argp :: real
  nu :: real

text \<open>
  \<^verbatim>\<open>Orbit.from_classical\<close> is library code. Its checks are those of the poliastro
  constructor, in the library's order: a parabolic eccentricity is refused, then an
  inclination outside 0..180 degrees, then a hyperbolic eccentricity with a positive
  semi-major axis. Nothing compares the semi-major axis with the attractor's radius.
  (The library also wraps a true anomaly outside -180..180 degrees; both scripts pass 0.)
\<close>

definition from_classical ::
  "body \<Rightarrow> real \<Rightarrow> real \<Rightarrow> real \<Rightarrow> real \<Rightarrow> real \<Rightarrow> real \<Rightarrow> error + orbit" where
  "from_classical att a e i raan' argp' nu' =
     (if e = 1 then Inl (ValueError ''For parabolic orbits use Orbit.parabolic instead'')
      else if \<not> (0 \<le> i \<and> i \<le> 180)
        then Inl (ValueError ''Inclination must be between 0 and 180 degrees'')
      else if e > 1 \<and> a > 0
        then Inl (ValueError ''Hyperbolic orbits have negative semimajor axis'')
      else Inr \<lparr>attractor = att, sm_axis = a, ecc = e, inc = i,
                 raan = raan', argp = argp', nu = nu'\<rparr>)"

text \<open>
  Modelled from the spec: \<^verbatim>\<open>orbit.period\<close> is computed by the poliastro library, which
  is not part of the repository's sources. The spec gives Kepler's third law,
  period = 2 pi sqrt(a^3 / mu), in seconds.
\<close>

definition period :: "orbit \<Rightarrow> real" where
  "period orb = 2 * pi * sqrt (sm_axis orb ^ 3 / body_k (attractor orb))"

text \<open>
  \<^verbatim>\<open>orbit.propagate(t).r\<close>, the position after \<open>t\<close> seconds, is library code as well
  (a two-body Kepler solver). It is a parameter of the model: the theorems on the
  scripts' figures and samples hold for any propagator.
\<close>

type_synonym propagator = "orbit \<Rightarrow> real \<Rightarrow> vec3"

subsection \<open>numpy.linspace\<close>

text \<open>
  \<^verbatim>\<open>np.linspace(start, stop, num)\<close> with the default \<^verbatim>\<open>endpoint=True\<close>:
  \<^verbatim>\<open>step = (stop - start) / (num - 1)\<close>, \<^verbatim>\<open>y = arange(0, num) * step + start\<close>, and
  the last element is overwritten with \<^verbatim>\<open>stop\<close> when \<^verbatim>\<open>num > 1\<close>. For
  \<^verbatim>\<open>num = 1\<close> the result is \<^verbatim>\<open>[start]\<close>, for \<^verbatim>\<open>num = 0\<close> it is empty.
\<close>

definition linspace :: "real \<Rightarrow> real \<Rightarrow> nat \<Rightarrow> real list" where
  "linspace start stop num =
     (let step = (stop - start) / real (num - 1);
          y = map (\<lambda>i. real i * step + start) [0..<num]
      in if 1 < num then y[num - 1 := stop] else y)"

subsection \<open>Plotly objects\<close>

record marker =
  marker_size :: real
  marker_color :: string

record line =
  line_width :: real
  line_color :: string

text \<open>\<^verbatim>\<open>go.Scatter3d\<close>: the keyword arguments a script leaves out are \<open>None\<close>.\<close>

record scatter3d =
  x_data :: "real list"
  y_data :: "real list"
  z_data :: "real list"
  mode :: string
  marker :: "marker option"
  line :: "line option"
  trace_name :: "string option"

record frame =
  frame_data :: "scatter3d list"
  frame_name :: string

record figure =
  data :: "scatter3d list"
  frames :: "frame list"

text \<open>\<^verbatim>\<open>str(i)\<close> for a non-negative integer, as the f-strings of the frame names use it.\<close>

fun str_nat :: "nat \<Rightarrow> string" where
  "str_nat n =
     (if n < 10 then [char_of (48 + n)]
      else str_nat (n div 10) @ [char_of (48 + n mod 10)])"

declare str_nat.simps [simp del]

subsection \<open>The sampling lines shared by both scripts\<close>

text \<open>
  \<^verbatim>\<open>period = orbit.period.to(u.s).value\<close>,
  \<^verbatim>\<open>time_span = np.linspace(0, period, num=100) * u.s\<close>,
  \<^verbatim>\<open>propagated_positions = [orbit.propagate(t).r for t in time_span]\<close>
  (simulator.py lines 23-25, update_orbit lines 100-102).
\<close>

definition time_span :: "orbit \<Rightarrow> real list" where
  "time_span orb = linspace 0 (period orb) 100"

definition propagated_positions :: "propagator \<Rightarrow> orbit \<Rightarrow> vec3 list" where
  "propagated_positions propagate orb = map (\<lambda>t. propagate orb t) (time_span orb)"

text \<open>
  \<^verbatim>\<open>x_vals, y_vals, z_vals = zip(*[(pos[0].value, pos[1].value, pos[2].value) for pos in ...])\<close>:
  with no position at all \<^verbatim>\<open>zip\<close> yields nothing and the unpacking raises.
\<close>

definition unzip3 :: "vec3 list \<Rightarrow> error + (real list \<times> real list \<times> real list)" where
  "unzip3 ps =
     (if ps = [] then Inl (ValueError ''not enough values to unpack (expected 3, got 0)'')
      else Inr (map (\<lambda>pos. fst pos) ps, map (\<lambda>pos. fst (snd pos)) ps,
                map (\<lambda>pos. snd (snd pos)) ps))"

subsection \<open>simulator.py\<close>

definition alt_perigee :: real where
  "alt_perigee = 700"

definition eccentricity :: real where
  "eccentricity = 1 / 10"

definition inclination :: real where
  "inclination = 45"

text \<open>The script's \<^verbatim>\<open>orbit\<close> (lines 12-20).\<close>

definition simulator_orbit :: "error + orbit" where
  "simulator_orbit =
     from_classical Earth (body_R Earth + alt_perigee) eccentricity inclination 0 0 0"

text \<open>
  Lines 31-84: the three traces of the figure and one frame for each index of
  \<^verbatim>\<open>x_vals\<close>, with \<^verbatim>\<open>earth_size = 15\<close> and \<^verbatim>\<open>satellite_size = 6\<close>.
\<close>

definition simulator_figure :: "real list \<Rightarrow> real list \<Rightarrow> real list \<Rightarrow> figure" where
  "simulator_figure x_vals y_vals z_vals =
     (let earth_size = 15; satellite_size = 6 in
      \<lparr>data =
         [\<lparr>x_data = x_vals, y_data = y_vals, z_data = z_vals, mode = ''lines'',
           marker = None, line = Some \<lparr>line_width = 2, line_color = ''red''\<rparr>,
           trace_name = Some ''Orbit Path''\<rparr>,
          \<lparr>x_data = [0], y_data = [0], z_data = [0], mode = ''markers'',
           marker = Some \<lparr>marker_size = earth_size, marker_color = ''blue''\<rparr>,
           line = None, trace_name = Some ''Earth''\<rparr>,
          \<lparr>x_data = [x_vals ! 0], y_data = [y_vals ! 0], z_data = [z_vals ! 0],
           mode = ''markers'',
           marker = Some \<lparr>marker_size = satellite_size, marker_color = ''green''\<rparr>,
           line = None, trace_name = Some ''Satellite''\<rparr>],
       frames =
         map (\<lambda>i.
           \<lparr>frame_data =
              [\<lparr>x_data = x_vals, y_data = y_vals, z_data = z_vals, mode = ''lines'',
                marker = None, line = Some \<lparr>line_width = 2, line_color = ''red''\<rparr>,
                trace_name = None\<rparr>,
               \<lparr>x_data = [0], y_data = [0], z_data = [0], mode = ''markers'',
                marker = Some \<lparr>marker_size = earth_size, marker_color = ''blue''\<rparr>,
                line = None, trace_name = None\<rparr>,
               \<lparr>x_data = [x_vals ! i], y_data = [y_vals ! i], z_data = [z_vals ! i],
                mode = ''markers'',
                marker = Some \<lparr>marker_size = satellite_size, marker_color = ''green''\<rparr>,
                line = None, trace_name = None\<rparr>],
            frame_name = ''Frame '' @ str_nat i\<rparr>)
           [0..<length x_vals]\<rparr>)"

text \<open>The whole script up to \<^verbatim>\<open>fig.frames = frames\<close>; an exception leaves no figure.\<close>

definition simulator :: "propagator \<Rightarrow> error + figure" where
  "simulator propagate =
     (case simulator_orbit of
        Inl err \<Rightarrow> Inl err
      | Inr orb \<Rightarrow>
          (case unzip3 (propagated_positions propagate orb) of
             Inl err \<Rightarrow> Inl err
           | Inr (x_vals, y_vals, z_vals) \<Rightarrow> Inr (simulator_figure x_vals y_vals z_vals)))"

subsection \<open>dash simulation.py\<close>

text \<open>
  The module-level defaults (lines 15-17). They are the only state outside the callback
  that the callback reads, so they are threaded through it explicitly.
\<close>

record globals =
  default_eccentricity :: real
  default_inclination :: real
  default_sma :: real

definition module_globals :: globals where
  "module_globals =
     \<lparr>default_eccentricity = 1 / 10, default_inclination = 45, default_sma = 7078\<rparr>"

definition create_orbit :: "real \<Rightarrow> real \<Rightarrow> real \<Rightarrow> error + orbit" where
  "create_orbit sma ecc' inc' = from_classical Earth sma ecc' inc' 0 0 0"

text \<open>Lines 106-149 of \<^verbatim>\<open>update_orbit\<close>: the frames' traces carry coordinates and mode only.\<close>

definition dash_figure ::
  "real list \<Rightarrow> real list \<Rightarrow> real list \<Rightarrow> real \<Rightarrow> real \<Rightarrow> figure" where
  "dash_figure x_vals y_vals z_vals earth_size satellite_size =
     \<lparr>data =
        [\<lparr>x_data = x_vals, y_data = y_vals, z_data = z_vals, mode = ''lines'',
          marker = None, line = Some \<lparr>line_width = 2, line_color = ''red''\<rparr>,
          trace_name = Some ''Orbit Path''\<rparr>,
         \<lparr>x_data = [0], y_data = [0], z_data = [0], mode = ''markers'',
          marker = Some \<lparr>marker_size = earth_size, marker_color = ''blue''\<rparr>,
          line = None, trace_name = Some ''Earth''\<rparr>,
         \<lparr>x_data = [x_vals ! 0], y_data = [y_vals ! 0], z_data = [z_vals ! 0],
          mode = ''markers'',
          marker = Some \<lparr>marker_size = satellite_size, marker_color = ''green''\<rparr>,
          line = None, trace_name = Some ''Satellite''\<rparr>],
      frames =
        map (\<lambda>i.
          \<lparr>frame_data =
             [\<lparr>x_data = x_vals, y_data = y_vals, z_data = z_vals, mode = ''lines'',
               marker = None, line = None, trace_name = None\<rparr>,
              \<lparr>x_data = [0], y_data = [0], z_data = [0], mode = ''markers'',
               marker = None, line = None, trace_name = None\<rparr>,
              \<lparr>x_data = [x_vals ! i], y_data = [y_vals ! i], z_data = [z_vals ! i],
               mode = ''markers'', marker = None, line = None, trace_name = None\<rparr>],
           frame_name = ''frame_'' @ str_nat i\<rparr>)
          [0..<length x_vals]\<rparr>"

text \<open>
  The callback (lines 95-180). It returns the figure, or the exception that ended it,
  together with the module state it leaves behind.
\<close>

definition update_orbit ::
  "propagator \<Rightarrow> real \<Rightarrow> real \<Rightarrow> real \<Rightarrow> globals \<Rightarrow> (error + figure) \<times> globals" where
  "update_orbit propagate sma earth_size satellite_size g =
     (case create_orbit sma (default_eccentricity g) (default_inclination g) of
        Inl err \<Rightarrow> (Inl err, g)
      | Inr orb \<Rightarrow>
          (case unzip3 (propagated_positions propagate orb) of
             Inl err \<Rightarrow> (Inl err, g)
           | Inr (x_vals, y_vals, z_vals) \<Rightarrow>
               (Inr (dash_figure x_vals y_vals z_vals earth_size satellite_size), g)))"

text \<open>
  Dash calls the callback once for every change of a slider, with the three slider
  values; a session is the list of these calls, each starting from the state the
  previous one left.
\<close>

type_synonym request = "real \<times> real \<times> real"

fun serve :: "propagator \<Rightarrow> request list \<Rightarrow> globals \<Rightarrow> (error + figure) list \<times> globals" where
  "serve propagate [] g = ([], g)"
| "serve propagate ((sma, earth_size, satellite_size) # rs) g =
     (let (fig, g') = update_orbit propagate sma earth_size satellite_size g;
          (figs, g'') = serve propagate rs g'
      in (fig # figs, g''))"

subsection \<open>A concrete propagator\<close>

text \<open>
  Uniform motion on a circle of radius \<open>a\<close> in the reference plane, once round in one
  period. It stands in for the library's propagator only where a closed example needs
  one to run the model on.
\<close>

definition circular_propagate :: propagator where
  "circular_propagate orb t =
     (sm_axis orb * cos (2 * pi * t / period orb),
      sm_axis orb * sin (2 * pi * t / period orb), 0)"

subsection \<open>A two-body propagator\<close>

text \<open>
  Modelled from the spec: the propagator behind \<^verbatim>\<open>orbit.propagate(t).r\<close> is poliastro
  code, which is not part of the repository's sources. The spec (4.1, step 3) describes
  it: propagate from the initial true anomaly, solve Kepler's equation for the
  eccentric anomaly, convert to the true anomaly, and rotate the perifocal coordinates
  into the inertial frame by the argument of perigee, the inclination and the RAAN.
  The definitions below follow these steps with the formulas of the two-body problem.
\<close>

text \<open>Modelled from the spec: the angles of the elements are in degrees.\<close>

definition radians :: "real \<Rightarrow> real" where
  "radians d = d * pi / 180"

text \<open>Modelled from the spec: the magnitude of a position vector.\<close>

definition magnitude :: "vec3 \<Rightarrow> real" where
  "magnitude pos = sqrt ((fst pos)\<^sup>2 + (fst (snd pos))\<^sup>2 + (snd (snd pos))\<^sup>2)"

text \<open>
  Modelled from the spec: the rotations about the third and the first axis that take
  perifocal coordinates into the inertial frame.
\<close>

definition rot3 :: "real \<Rightarrow> vec3 \<Rightarrow> vec3" where
  "rot3 th pos =
     (fst pos * cos th - fst (snd pos) * sin th,
      fst pos * sin th + fst (snd pos) * cos th,
      snd (snd pos))"

definition rot1 :: "real \<Rightarrow> vec3 \<Rightarrow> vec3" where
  "rot1 th pos =
     (fst pos,
      fst (snd pos) * cos th - snd (snd pos) * sin th,
      fst (snd pos) * sin th + snd (snd pos) * cos th)"

text \<open>
  Modelled from the spec: the conversions between true and eccentric anomaly by the
  half-angle formula (at half a turn the two anomalies coincide), for an eccentricity in
  [0, 1).
\<close>

definition eccentric_of_true :: "real \<Rightarrow> real \<Rightarrow> real" where
  "eccentric_of_true e v =
     (if cos (v / 2) = 0 then v
      else 2 * arctan (sqrt ((1 - e) / (1 + e)) * tan (v / 2)))"

definition true_of_eccentric :: "real \<Rightarrow> real \<Rightarrow> real" where
  "true_of_eccentric e E =
     (if cos (E / 2) = 0 then E
      else 2 * arctan (sqrt ((1 + e) / (1 - e)) * tan (E / 2)))"

text \<open>
  Modelled from the spec: the perifocal position at true anomaly \<open>v\<close>, at the distance
  a (1 - e^2) / (1 + e cos v) from the focus.
\<close>

definition perifocal :: "orbit \<Rightarrow> real \<Rightarrow> vec3" where
  "perifocal orb v =
     (let r = sm_axis orb * (1 - (ecc orb)\<^sup>2) / (1 + ecc orb * cos v)
      in (r * cos v, r * sin v, 0))"

text \<open>
  Modelled from the spec: the position \<open>t\<close> seconds after the epoch. The mean anomaly
  grows from its initial value at the rate 2 pi / period. The spec names no method for
  Kepler's equation, so its solver \<open>solve M e\<close> is an argument.
\<close>

definition kepler_propagate :: "(real \<Rightarrow> real \<Rightarrow> real) \<Rightarrow> propagator" where
  "kepler_propagate solve orb t =
     (let e = ecc orb;
          E0 = eccentric_of_true e (radians (nu orb));
          M0 = E0 - e * sin E0;
          M = M0 + 2 * pi / period orb * t;
          E = solve M e;
          v = true_of_eccentric e E
      in rot3 (radians (raan orb))
           (rot1 (radians (inc orb))
              (rot3 (radians (argp orb)) (perifocal orb v))))"

subsection \<open>Predicates of the statements\<close>

text \<open>
  A marker trace is pinned to a position when its three coordinate lists hold exactly
  that position. The frames of a figure follow a list of positions when there is one
  frame for each position, each frame has three traces, the third is pinned to the
  position of the frame's index, and the first two are those of the first frame.
\<close>

definition marker_pinned :: "scatter3d \<Rightarrow> vec3 \<Rightarrow> bool" where
  "marker_pinned tr pos \<longleftrightarrow>
     x_data tr = [fst pos] \<and> y_data tr = [fst (snd pos)] \<and> z_data tr = [snd (snd pos)]"


section \<open>Properties\<close>

subsection \<open>linspace\<close>

lemma length_linspace: "length (linspace start stop num) = num"
  by (simp add: linspace_def Let_def)

lemma linspace_nth:
  assumes "2 \<le> num" and "i < num"
  shows "linspace start stop num ! i = start + real i * ((stop - start) / real (num - 1))"
proof (cases "i = num - 1")
  case True
  have "real (num - 1) \<noteq> 0" using assms by simp
  then have "start + real (num - 1) * ((stop - start) / real (num - 1)) = stop"
    by simp
  with True assms show ?thesis
    by (simp add: linspace_def Let_def)
next
  case False
  with assms show ?thesis
    by (simp add: linspace_def Let_def add.commute)
qed

lemma linspace_hd:
  assumes "2 \<le> num"
  shows "hd (linspace start stop num) = start"
proof -
  have "linspace start stop num \<noteq> []"
    using assms length_linspace [of start stop num] by auto
  then have "hd (linspace start stop num) = linspace start stop num ! 0"
    by (simp add: hd_conv_nth)
  also have "\<dots> = start"
    using assms by (simp add: linspace_nth)
  finally show ?thesis .
qed

lemma linspace_last:
  assumes "2 \<le> num"
  shows "last (linspace start stop num) = stop"
proof -
  have ne: "linspace start stop num \<noteq> []"
    using assms length_linspace [of start stop num] by auto
  have "last (linspace start stop num) = linspace start stop num ! (num - 1)"
    using ne by (simp add: last_conv_nth length_linspace)
  also have "\<dots> = stop"
    using assms by (simp add: linspace_def Let_def)
  finally show ?thesis .
qed

lemma linspace_step:
  assumes "2 \<le> num" and "Suc i < num"
  shows "linspace start stop num ! Suc i - linspace start stop num ! i
           = (stop - start) / real (num - 1)"
proof -
  define d where "d = (stop - start) / real (num - 1)"
  have "i < num" using assms by simp
  then have lo: "linspace start stop num ! i = start + real i * d"
    using assms by (simp add: linspace_nth d_def)
  have hi: "linspace start stop num ! Suc i = start + real (Suc i) * d"
    using assms by (simp only: linspace_nth d_def)
  have "start + real (Suc i) * d - (start + real i * d) = d"
    by (simp add: algebra_simps)
  then show ?thesis
    by (simp only: lo hi d_def)
qed

lemma linspace_strict:
  assumes "2 \<le> num" and "start < stop"
  shows "sorted_wrt (<) (linspace start stop num)"
proof -
  have pos: "0 < (stop - start) / real (num - 1)"
    using assms by simp
  have "linspace start stop num ! i < linspace start stop num ! j"
    if "i < j" and "j < num" for i j
  proof -
    have "real i < real j" using that by simp
    then have "real i * ((stop - start) / real (num - 1))
                 < real j * ((stop - start) / real (num - 1))"
      using pos by (rule mult_strict_right_mono)
    then show ?thesis
      using that assms by (simp add: linspace_nth)
  qed
  then show ?thesis
    by (simp add: sorted_wrt_iff_nth_less length_linspace)
qed

subsection \<open>Orbits, periods and the sampled lists\<close>

lemma Earth_k_pos: "0 < body_k Earth"
  by (simp add: Earth_def)

lemma Earth_R_pos: "0 < body_R Earth"
  by (simp add: Earth_def)

lemma period_pos:
  assumes "0 < sm_axis orb" and "0 < body_k (attractor orb)"
  shows "0 < period orb"
  using assms by (simp add: period_def)

lemma length_time_span: "length (time_span orb) = 100"
  by (simp add: time_span_def length_linspace)

lemma length_propagated_positions: "length (propagated_positions propagate orb) = 100"
  by (simp add: propagated_positions_def length_time_span)

lemma from_classical_elliptic:
  assumes "0 \<le> e" and "e < 1" and "0 \<le> i" and "i \<le> 180"
  shows "from_classical att a e i raan' argp' nu'
           = Inr \<lparr>attractor = att, sm_axis = a, ecc = e, inc = i,
                   raan = raan', argp = argp', nu = nu'\<rparr>"
  using assms by (simp add: from_classical_def)

lemma unzip3_propagated_positions:
  "unzip3 (propagated_positions propagate orb)
     = Inr (map (\<lambda>pos. fst pos) (propagated_positions propagate orb),
            map (\<lambda>pos. fst (snd pos)) (propagated_positions propagate orb),
            map (\<lambda>pos. snd (snd pos)) (propagated_positions propagate orb))"
proof -
  have "propagated_positions propagate orb \<noteq> []"
    using length_propagated_positions [of propagate orb] by auto
  then show ?thesis
    by (simp add: unzip3_def)
qed

lemma two_powr_three_halves: "(2::real) powr (3 / 2) = sqrt 8"
proof -
  have "(2::real) powr (3 / 2) = 2 powr (1 + 1 / 2)" by simp
  also have "\<dots> = 2 * sqrt 2"
    by (simp only: powr_add powr_one powr_half_sqrt)
  also have "\<dots> = sqrt 8"
  proof -
    have "sqrt 8 = sqrt (4 * 2)" by simp
    also have "\<dots> = 2 * sqrt 2" by (simp only: real_sqrt_mult) simp
    finally show ?thesis by simp
  qed
  finally show ?thesis .
qed

lemma period_double:
  "period (orb\<lparr>sm_axis := 2 * sm_axis orb\<rparr>) = 2 powr (3 / 2) * period orb"
proof -
  have "(2 * sm_axis orb) ^ 3 / body_k (attractor orb)
          = 8 * (sm_axis orb ^ 3 / body_k (attractor orb))"
    by (simp add: power_mult_distrib)
  then have "sqrt ((2 * sm_axis orb) ^ 3 / body_k (attractor orb))
          = sqrt 8 * sqrt (sm_axis orb ^ 3 / body_k (attractor orb))"
    by (simp only: real_sqrt_mult)
  then show ?thesis
    by (simp add: period_def two_powr_three_halves)
qed

subsection \<open>The scripts as closed forms\<close>

lemma create_orbit_defaults:
  "create_orbit sma (default_eccentricity module_globals) (default_inclination module_globals)
     = Inr \<lparr>attractor = Earth, sm_axis = sma, ecc = 1 / 10, inc = 45,
             raan = 0, argp = 0, nu = 0\<rparr>"
  by (simp add: create_orbit_def module_globals_def from_classical_def)

lemma update_orbit_state: "snd (update_orbit propagate sma earth_size satellite_size g) = g"
  by (simp add: update_orbit_def split: sum.splits prod.splits)

lemma update_orbit_module:
  "update_orbit propagate sma earth_size satellite_size module_globals =
     (let ps = propagated_positions propagate
                 \<lparr>attractor = Earth, sm_axis = sma, ecc = 1 / 10, inc = 45,
                  raan = 0, argp = 0, nu = 0\<rparr>
      in (Inr (dash_figure (map (\<lambda>pos. fst pos) ps) (map (\<lambda>pos. fst (snd pos)) ps)
                 (map (\<lambda>pos. snd (snd pos)) ps) earth_size satellite_size),
          module_globals))"
  by (simp add: update_orbit_def create_orbit_defaults unzip3_propagated_positions Let_def)

lemma serve_map:
  "serve propagate rs g =
     (map (\<lambda>(sma, earth_size, satellite_size).
             fst (update_orbit propagate sma earth_size satellite_size g)) rs, g)"
proof (induction rs)
  case Nil
  show ?case by simp
next
  case (Cons r rs)
  obtain sma earth_size satellite_size where r: "r = (sma, earth_size, satellite_size)"
    by (cases r) auto
  obtain fig where step: "update_orbit propagate sma earth_size satellite_size g = (fig, g)"
    using update_orbit_state [of propagate sma earth_size satellite_size g]
    by (cases "update_orbit propagate sma earth_size satellite_size g") auto
  show ?case
    by (simp add: r step Cons.IH)
qed

lemma simulator_orbit_built:
  "simulator_orbit = Inr \<lparr>attractor = Earth, sm_axis = body_R Earth + 700, ecc = 1 / 10,
                           inc = 45, raan = 0, argp = 0, nu = 0\<rparr>"
  by (simp add: simulator_orbit_def from_classical_def eccentricity_def inclination_def
      alt_perigee_def)

lemma simulator_built:
  "simulator propagate =
     (let ps = propagated_positions propagate
                 \<lparr>attractor = Earth, sm_axis = body_R Earth + 700, ecc = 1 / 10, inc = 45,
                  raan = 0, argp = 0, nu = 0\<rparr>
      in Inr (simulator_figure (map (\<lambda>pos. fst pos) ps) (map (\<lambda>pos. fst (snd pos)) ps)
                 (map (\<lambda>pos. snd (snd pos)) ps)))"
  by (simp add: simulator_def simulator_orbit_built unzip3_propagated_positions Let_def)

subsection \<open>Sampling\<close>

text \<open>
  Claim C1. For valid orbital elements (semi-major axis above the Earth's radius,
  eccentricity in [0, 1), inclination in 0..180 degrees) the orbit is built, and sampling
  \<open>n \<ge> 2\<close> offsets with \<^verbatim>\<open>linspace\<close> over one period gives exactly \<open>n\<close> offsets and
  \<open>n\<close> positions, the \<open>j\<close>-th position being the orbit propagated to the \<open>j\<close>-th
  offset; the first offset is 0, the last one is the period, consecutive offsets differ by
  period / (n - 1), and the offsets increase strictly. Both scripts sample with
  \<open>n = 100\<close>: their \<^verbatim>\<open>time_span\<close> and \<^verbatim>\<open>propagated_positions\<close> are these lists.
\<close>

theorem sampling_offsets:
  assumes "body_R Earth < a" and "0 \<le> e" and "e < 1" and "0 \<le> i" and "i \<le> 180"
    and "2 \<le> n"
  shows "\<exists>orb. from_classical Earth a e i raan' argp' nu' = Inr orb \<and>
           (let ts = linspace 0 (period orb) n; ps = map (\<lambda>t. propagate orb t) ts
            in length ts = n \<and> length ps = n \<and>
               (\<forall>j<n. ps ! j = propagate orb (ts ! j)) \<and>
               hd ts = 0 \<and> last ts = period orb \<and>
               (\<forall>j. Suc j < n \<longrightarrow> ts ! Suc j - ts ! j = period orb / real (n - 1)) \<and>
               sorted_wrt (<) ts \<and>
               (n = 100 \<longrightarrow> time_span orb = ts \<and> propagated_positions propagate orb = ps))"
proof -
  define orb where "orb = \<lparr>attractor = Earth, sm_axis = a, ecc = e, inc = i,
                           raan = raan', argp = argp', nu = nu'\<rparr>"
  have built: "from_classical Earth a e i raan' argp' nu' = Inr orb"
    using assms by (simp add: from_classical_elliptic orb_def)
  have "0 < a" using assms(1) Earth_R_pos by simp
  then have pos: "0 < period orb"
    by (intro period_pos) (simp_all add: orb_def Earth_k_pos)
  let ?ts = "linspace 0 (period orb) n"
  have len: "length ?ts = n" by (simp add: length_linspace)
  have nth: "\<forall>j<n. map (\<lambda>t. propagate orb t) ?ts ! j = propagate orb (?ts ! j)"
    using len by simp
  have first: "hd ?ts = 0" using assms(6) by (simp add: linspace_hd)
  have final: "last ?ts = period orb" using assms(6) by (simp add: linspace_last)
  have even: "\<forall>j. Suc j < n \<longrightarrow> ?ts ! Suc j - ?ts ! j = period orb / real (n - 1)"
    using assms(6) linspace_step [of n _ 0 "period orb"] by simp
  have incr: "sorted_wrt (<) ?ts"
    using assms(6) pos by (simp add: linspace_strict)
  have code: "n = 100 \<longrightarrow> time_span orb = ?ts \<and>
                propagated_positions propagate orb = map (\<lambda>t. propagate orb t) ?ts"
    by (simp add: time_span_def propagated_positions_def)
  have "length ?ts = n \<and> length (map (\<lambda>t. propagate orb t) ?ts) = n \<and>
        (\<forall>j<n. map (\<lambda>t. propagate orb t) ?ts ! j = propagate orb (?ts ! j)) \<and>
        hd ?ts = 0 \<and> last ?ts = period orb \<and>
        (\<forall>j. Suc j < n \<longrightarrow> ?ts ! Suc j - ?ts ! j = period orb / real (n - 1)) \<and>
        sorted_wrt (<) ?ts \<and>
        (n = 100 \<longrightarrow> time_span orb = ?ts \<and>
           propagated_positions propagate orb = map (\<lambda>t. propagate orb t) ?ts)"
    using len nth first final even incr code by (simp only: length_map simp_thms)
  with built show ?thesis
    unfolding Let_def by blast
qed

theorem sampling_offsets_witness:
  "body_R Earth < 7078 \<and> (2::nat) \<le> 100 \<and>
   (\<exists>orb. from_classical Earth 7078 (1 / 10) 45 0 0 0 = Inr orb \<and>
      length (time_span orb) = 100 \<and>
      length (propagated_positions circular_propagate orb) = 100 \<and>
      hd (time_span orb) = 0 \<and> last (time_span orb) = period orb \<and>
      sorted_wrt (<) (time_span orb))"
proof -
  have valid: "body_R Earth < 7078" "(0::real) \<le> 1 / 10" "(1::real) / 10 < 1"
    "(0::real) \<le> 45" "(45::real) \<le> 180" "(2::nat) \<le> 100"
    by (simp_all add: Earth_def)
  from sampling_offsets [OF valid, where raan' = 0 and argp' = 0 and nu' = 0
      and propagate = circular_propagate]
  show ?thesis
    using valid(1) by (auto simp: Let_def)
qed

text \<open>
  Claim C3. For valid orbital elements the period of the orbit the scripts build is
  2 pi sqrt(a^3 / mu), with \<open>a\<close> the semi-major axis handed to the constructor and
  \<open>mu\<close> the Earth's gravitational parameter, and this period is the last of the
  sampled time offsets, so the samples span exactly one period.
\<close>

theorem period_kepler:
  assumes "body_R Earth < a" and "0 \<le> e" and "e < 1" and "0 \<le> i" and "i \<le> 180"
  shows "\<exists>orb. from_classical Earth a e i raan' argp' nu' = Inr orb \<and>
           period orb = 2 * pi * sqrt (a ^ 3 / body_k Earth) \<and>
           last (time_span orb) = 2 * pi * sqrt (a ^ 3 / body_k Earth)"
proof -
  define orb where "orb = \<lparr>attractor = Earth, sm_axis = a, ecc = e, inc = i,
                           raan = raan', argp = argp', nu = nu'\<rparr>"
  have built: "from_classical Earth a e i raan' argp' nu' = Inr orb"
    using assms by (simp add: from_classical_elliptic orb_def)
  have per: "period orb = 2 * pi * sqrt (a ^ 3 / body_k Earth)"
    by (simp add: period_def orb_def)
  have "last (time_span orb) = period orb"
    by (simp add: time_span_def linspace_last)
  with built per show ?thesis by auto
qed

theorem period_kepler_witness:
  "body_R Earth < 7078 \<and>
   (\<exists>orb. from_classical Earth 7078 (1 / 10) 45 0 0 0 = Inr orb \<and>
      period orb = 2 * pi * sqrt (7078 ^ 3 / body_k Earth))"
proof -
  have valid: "body_R Earth < 7078" "(0::real) \<le> 1 / 10" "(1::real) / 10 < 1"
    "(0::real) \<le> 45" "(45::real) \<le> 180"
    by (simp_all add: Earth_def)
  from period_kepler [OF valid, where raan' = 0 and argp' = 0 and nu' = 0]
  show ?thesis
    using valid(1) by blast
qed

text \<open>
  Claim C8. With the Earth as the central body and otherwise equal valid elements, the
  orbit built with twice the semi-major axis has a period 2^1.5 times as long.
\<close>

theorem period_doubling:
  assumes "body_R Earth < a" and "0 \<le> e" and "e < 1" and "0 \<le> i" and "i \<le> 180"
  shows "\<exists>orb orb2. from_classical Earth a e i raan' argp' nu' = Inr orb \<and>
           from_classical Earth (2 * a) e i raan' argp' nu' = Inr orb2 \<and>
           period orb2 = 2 powr (3 / 2) * period orb"
proof -
  define orb where "orb = \<lparr>attractor = Earth, sm_axis = a, ecc = e, inc = i,
                           raan = raan', argp = argp', nu = nu'\<rparr>"
  have one: "from_classical Earth a e i raan' argp' nu' = Inr orb"
    using assms by (simp add: from_classical_elliptic orb_def)
  have two: "from_classical Earth (2 * a) e i raan' argp' nu'
               = Inr (orb\<lparr>sm_axis := 2 * sm_axis orb\<rparr>)"
    using assms by (simp add: from_classical_elliptic orb_def)
  from one two period_double [of orb] show ?thesis by blast
qed

theorem period_doubling_witness:
  "body_R Earth < 7078 \<and>
   (\<exists>orb orb2. from_classical Earth 7078 (1 / 10) 45 0 0 0 = Inr orb \<and>
      from_classical Earth 14156 (1 / 10) 45 0 0 0 = Inr orb2 \<and>
      period orb2 = 2 powr (3 / 2) * period orb)"
proof -
  have valid: "body_R Earth < 7078" "(0::real) \<le> 1 / 10" "(1::real) / 10 < 1"
    "(0::real) \<le> 45" "(45::real) \<le> 180"
    by (simp_all add: Earth_def)
  from period_doubling [OF valid, where raan' = 0 and argp' = 0 and nu' = 0]
  show ?thesis
    using valid(1) by simp
qed

subsection \<open>Circular orbits\<close>

lemma rotation_square:
  fixes x y c s :: real
  assumes "s\<^sup>2 + c\<^sup>2 = 1"
  shows "(x * c - y * s)\<^sup>2 + (x * s + y * c)\<^sup>2 = x\<^sup>2 + y\<^sup>2"
proof -
  have "(x * c - y * s)\<^sup>2 + (x * s + y * c)\<^sup>2 = (x\<^sup>2 + y\<^sup>2) * (s\<^sup>2 + c\<^sup>2)"
    by (simp add: power2_eq_square algebra_simps)
  with assms show ?thesis by simp
qed

lemma magnitude_rot3: "magnitude (rot3 th pos) = magnitude pos"
  using rotation_square [of "sin th" "cos th" "fst pos" "fst (snd pos)"]
  by (simp add: magnitude_def rot3_def)

lemma magnitude_rot1: "magnitude (rot1 th pos) = magnitude pos"
proof -
  have "(fst (snd pos) * cos th - snd (snd pos) * sin th)\<^sup>2
          + (fst (snd pos) * sin th + snd (snd pos) * cos th)\<^sup>2
        = (fst (snd pos))\<^sup>2 + (snd (snd pos))\<^sup>2"
    by (rule rotation_square) simp
  then show ?thesis
    by (simp add: magnitude_def rot1_def add.assoc)
qed

lemma magnitude_perifocal_circular:
  assumes "ecc orb = 0" and "0 \<le> sm_axis orb"
  shows "magnitude (perifocal orb v) = sm_axis orb"
proof -
  have "(sm_axis orb * cos v)\<^sup>2 + (sm_axis orb * sin v)\<^sup>2 = (sm_axis orb)\<^sup>2"
    using rotation_square [of "sin v" "cos v" "sm_axis orb" 0] by simp
  with assms show ?thesis
    by (simp add: magnitude_def perifocal_def Let_def)
qed

lemma magnitude_kepler_circular:
  assumes "ecc orb = 0" and "0 \<le> sm_axis orb"
  shows "magnitude (kepler_propagate solve orb t) = sm_axis orb"
  using assms
  by (simp add: kepler_propagate_def Let_def magnitude_rot3 magnitude_rot1
      magnitude_perifocal_circular)

text \<open>
  Claim C7. For eccentricity 0 and a semi-major axis above the Earth's radius the orbit
  is built, and each of the 100 positions sampled from it by the two-body propagator
  has a magnitude equal to the semi-major axis, whatever solver of Kepler's equation
  the propagator uses. Over the reals the equality is exact.
\<close>

theorem circular_magnitude:
  assumes "body_R Earth < a" and "0 \<le> i" and "i \<le> 180"
  shows "\<exists>orb. from_classical Earth a 0 i raan' argp' nu' = Inr orb \<and>
           length (propagated_positions (kepler_propagate solve) orb) = 100 \<and>
           (\<forall>pos \<in> set (propagated_positions (kepler_propagate solve) orb).
              magnitude pos = a)"
proof -
  define orb where "orb = \<lparr>attractor = Earth, sm_axis = a, ecc = 0, inc = i,
                           raan = raan', argp = argp', nu = nu'\<rparr>"
  have built: "from_classical Earth a 0 i raan' argp' nu' = Inr orb"
    using assms by (simp add: from_classical_elliptic orb_def)
  have "0 \<le> a" using assms(1) Earth_R_pos by simp
  then have "magnitude (kepler_propagate solve orb t) = a" for t
    using magnitude_kepler_circular [of orb solve t] by (simp add: orb_def)
  then have "\<forall>pos \<in> set (propagated_positions (kepler_propagate solve) orb).
               magnitude pos = a"
    by (auto simp: propagated_positions_def)
  with built length_propagated_positions [of "kepler_propagate solve" orb]
  show ?thesis by blast
qed

theorem circular_magnitude_witness:
  "body_R Earth < 7078 \<and>
   (\<exists>orb. create_orbit 7078 0 45 = Inr orb \<and>
      magnitude (propagated_positions (kepler_propagate (\<lambda>M e. M)) orb ! 50) = 7078)"
proof -
  have valid: "body_R Earth < 7078" "(0::real) \<le> 45" "(45::real) \<le> 180"
    by (simp_all add: Earth_def)
  from circular_magnitude [OF valid, where raan' = 0 and argp' = 0 and nu' = 0
      and solve = "\<lambda>M e. M"]
  obtain orb where orb: "from_classical Earth 7078 0 45 0 0 0 = Inr orb"
    "length (propagated_positions (kepler_propagate (\<lambda>M e. M)) orb) = 100"
    "\<forall>pos \<in> set (propagated_positions (kepler_propagate (\<lambda>M e. M)) orb).
       magnitude pos = 7078"
    by blast
  have "propagated_positions (kepler_propagate (\<lambda>M e. M)) orb ! 50
          \<in> set (propagated_positions (kepler_propagate (\<lambda>M e. M)) orb)"
    using orb(2) by (intro nth_mem) simp
  with orb(3) have "magnitude (propagated_positions (kepler_propagate (\<lambda>M e. M)) orb ! 50) = 7078"
    by blast
  with orb(1) valid(1) show ?thesis
    by (auto simp: create_orbit_def)
qed

subsection \<open>Input validation\<close>

text \<open>
  Claim C2, as stated, fails on each of its three conditions. A semi-major axis of
  6000 km lies below the Earth's radius, yet \<^verbatim>\<open>create_orbit\<close> accepts it and the
  callback returns a figure. The eccentricity -0.1 lies outside [0, 1) and is accepted,
  and so is the eccentricity 1.2 with a negative semi-major axis. The scripts take no
  sample count, and \<^verbatim>\<open>linspace\<close> with a count of 1 returns one offset without failing.
\<close>

theorem create_orbit_accepts_invalid:
  "6000 \<le> body_R Earth \<and> \<not> isl (create_orbit 6000 (1 / 10) 45) \<and>
   \<not> isl (fst (update_orbit circular_propagate 6000 15 6 module_globals)) \<and>
   \<not> isl (create_orbit 7078 (- (1 / 10)) 45) \<and>
   \<not> isl (create_orbit (- 7078) (12 / 10) 45) \<and>
   linspace 0 1 1 = [0]"
  by (simp add: Earth_def create_orbit_def from_classical_def update_orbit_module Let_def
      linspace_def)

text \<open>
  Claim C2, amended. For every positive semi-major axis and every eccentricity of 1 or
  more, \<^verbatim>\<open>create_orbit\<close> fails with a \<^verbatim>\<open>ValueError\<close> of the library's constructor and
  returns no orbit, so that sampling its result yields that error and no position at
  all; the eccentricity 1.2 is such a case.
\<close>

theorem create_orbit_rejects:
  assumes "0 < sma" and "1 \<le> e"
  shows "\<exists>msg. create_orbit sma e i = Inl (ValueError msg) \<and>
           map_sum id (propagated_positions propagate) (create_orbit sma e i)
             = Inl (ValueError msg)"
proof (cases "e = 1")
  case True
  then show ?thesis
    by (simp add: create_orbit_def from_classical_def)
next
  case False
  with assms have "1 < e" by simp
  with assms(1) False show ?thesis
    by (simp add: create_orbit_def from_classical_def)
qed

theorem create_orbit_rejects_witness:
  "\<exists>msg. create_orbit 7078 (12 / 10) 45 = Inl (ValueError msg) \<and>
     map_sum id (propagated_positions circular_propagate) (create_orbit 7078 (12 / 10) 45)
       = Inl (ValueError msg)"
proof -
  have "(0::real) < 7078" and "(1::real) \<le> 12 / 10" by simp_all
  from create_orbit_rejects [OF this] show ?thesis .
qed

subsection \<open>Determinism and display state\<close>

text \<open>
  Claim C4. The callback keeps no memory: in any two sessions that start from the same
  module state, two calls with the same slider values return the same result, wherever
  in the sessions they occur, and every session leaves the module state as it found it.
\<close>

theorem serve_deterministic:
  assumes "j1 < length rs1" and "j2 < length rs2" and "rs1 ! j1 = rs2 ! j2"
  shows "fst (serve propagate rs1 g) ! j1 = fst (serve propagate rs2 g) ! j2 \<and>
         snd (serve propagate rs1 g) = g \<and> snd (serve propagate rs2 g) = g"
  using assms by (simp add: serve_map)

theorem serve_deterministic_witness:
  "fst (serve circular_propagate [(7078, 15, 6), (9000, 20, 8)] module_globals) ! 0
     = fst (serve circular_propagate [(12000, 5, 2), (7500, 30, 12), (7078, 15, 6)]
              module_globals) ! 2"
proof -
  have "(0::nat) < length [(7078::real, 15::real, 6::real), (9000, 20, 8)]"
    and "(2::nat) < length [(12000::real, 5::real, 2::real), (7500, 30, 12), (7078, 15, 6)]"
    and "[(7078::real, 15::real, 6::real), (9000, 20, 8)] ! 0
           = [(12000, 5, 2), (7500, 30, 12), (7078, 15, 6)] ! 2"
    by simp_all
  from serve_deterministic [OF this, of circular_propagate module_globals]
  show ?thesis by blast
qed

text \<open>
  Claim C5. Two calls of the callback with the same semi-major axis and any Earth and
  satellite sizes both return a figure; both figures are sampled from the same orbit
  (hence over the same period), their traces carry the same x, y and z lists, and their
  frames are equal.
\<close>

theorem display_state_independent:
  "\<exists>fig1 fig2 orb.
     fst (update_orbit propagate sma earth_size1 satellite_size1 module_globals) = Inr fig1 \<and>
     fst (update_orbit propagate sma earth_size2 satellite_size2 module_globals) = Inr fig2 \<and>
     create_orbit sma (default_eccentricity module_globals)
       (default_inclination module_globals) = Inr orb \<and>
     x_data (data fig1 ! 0) = map (\<lambda>pos. fst pos) (propagated_positions propagate orb) \<and>
     y_data (data fig1 ! 0) = map (\<lambda>pos. fst (snd pos)) (propagated_positions propagate orb) \<and>
     z_data (data fig1 ! 0) = map (\<lambda>pos. snd (snd pos)) (propagated_positions propagate orb) \<and>
     map x_data (data fig1) = map x_data (data fig2) \<and>
     map y_data (data fig1) = map y_data (data fig2) \<and>
     map z_data (data fig1) = map z_data (data fig2) \<and>
     frames fig1 = frames fig2"
proof -
  let ?orb = "\<lparr>attractor = Earth, sm_axis = sma, ecc = 1 / 10, inc = 45,
                raan = 0, argp = 0, nu = 0\<rparr>"
  let ?ps = "propagated_positions propagate ?orb"
  let ?fig = "dash_figure (map (\<lambda>pos. fst pos) ?ps) (map (\<lambda>pos. fst (snd pos)) ?ps)
                (map (\<lambda>pos. snd (snd pos)) ?ps)"
  have one: "fst (update_orbit propagate sma earth_size1 satellite_size1 module_globals)
               = Inr (?fig earth_size1 satellite_size1)"
    by (simp add: update_orbit_module Let_def)
  have two: "fst (update_orbit propagate sma earth_size2 satellite_size2 module_globals)
               = Inr (?fig earth_size2 satellite_size2)"
    by (simp add: update_orbit_module Let_def)
  have path: "x_data (data (?fig earth_size1 satellite_size1) ! 0) = map (\<lambda>pos. fst pos) ?ps"
    "y_data (data (?fig earth_size1 satellite_size1) ! 0) = map (\<lambda>pos. fst (snd pos)) ?ps"
    "z_data (data (?fig earth_size1 satellite_size1) ! 0) = map (\<lambda>pos. snd (snd pos)) ?ps"
    by (simp_all add: dash_figure_def)
  have same: "map x_data (data (?fig earth_size1 satellite_size1))
                = map x_data (data (?fig earth_size2 satellite_size2))"
    "map y_data (data (?fig earth_size1 satellite_size1))
       = map y_data (data (?fig earth_size2 satellite_size2))"
    "map z_data (data (?fig earth_size1 satellite_size1))
       = map z_data (data (?fig earth_size2 satellite_size2))"
    "frames (?fig earth_size1 satellite_size1) = frames (?fig earth_size2 satellite_size2)"
    by (simp_all add: dash_figure_def)
  from one two path same create_orbit_defaults [of sma] show ?thesis by blast
qed

text \<open>
  Claim C9. In every session that starts from the module's state, every call of the
  callback, whatever its three slider values, returns a figure whose orbit path is
  sampled from the orbit around the Earth with the slider's semi-major axis,
  eccentricity 0.1, inclination 45 degrees and RAAN, argument of perigee and true
  anomaly 0; the module state is still the initial one afterwards.
\<close>

theorem callback_elements_fixed:
  assumes "j < length rs" and "rs ! j = (sma, earth_size, satellite_size)"
  shows "\<exists>fig orb.
     fst (serve propagate rs module_globals) ! j = Inr fig \<and>
     create_orbit sma (default_eccentricity module_globals)
       (default_inclination module_globals) = Inr orb \<and>
     orb = \<lparr>attractor = Earth, sm_axis = sma, ecc = 1 / 10, inc = 45,
            raan = 0, argp = 0, nu = 0\<rparr> \<and>
     x_data (data fig ! 0) = map (\<lambda>pos. fst pos) (propagated_positions propagate orb) \<and>
     y_data (data fig ! 0) = map (\<lambda>pos. fst (snd pos)) (propagated_positions propagate orb) \<and>
     z_data (data fig ! 0) = map (\<lambda>pos. snd (snd pos)) (propagated_positions propagate orb) \<and>
     snd (serve propagate rs module_globals) = module_globals"
proof -
  let ?orb = "\<lparr>attractor = Earth, sm_axis = sma, ecc = 1 / 10, inc = 45,
                raan = 0, argp = 0, nu = 0\<rparr>"
  let ?ps = "propagated_positions propagate ?orb"
  let ?fig = "dash_figure (map (\<lambda>pos. fst pos) ?ps) (map (\<lambda>pos. fst (snd pos)) ?ps)
                (map (\<lambda>pos. snd (snd pos)) ?ps) earth_size satellite_size"
  have "fst (serve propagate rs module_globals) ! j
          = fst (update_orbit propagate sma earth_size satellite_size module_globals)"
    using assms by (simp add: serve_map)
  then have resp: "fst (serve propagate rs module_globals) ! j = Inr ?fig"
    by (simp add: update_orbit_module Let_def)
  have path: "x_data (data ?fig ! 0) = map (\<lambda>pos. fst pos) ?ps"
    "y_data (data ?fig ! 0) = map (\<lambda>pos. fst (snd pos)) ?ps"
    "z_data (data ?fig ! 0) = map (\<lambda>pos. snd (snd pos)) ?ps"
    by (simp_all add: dash_figure_def)
  have state: "snd (serve propagate rs module_globals) = module_globals"
    by (simp add: serve_map)
  from resp path state create_orbit_defaults [of sma] show ?thesis by blast
qed

theorem callback_elements_fixed_witness:
  "\<exists>fig. fst (serve circular_propagate [(7078, 15, 6), (15000, 30, 12)] module_globals) ! 1
            = Inr fig \<and>
     x_data (data fig ! 0) =
       map (\<lambda>pos. fst pos) (propagated_positions circular_propagate
         \<lparr>attractor = Earth, sm_axis = 15000, ecc = 1 / 10, inc = 45,
          raan = 0, argp = 0, nu = 0\<rparr>)"
proof -
  have "(1::nat) < length [(7078::real, 15::real, 6::real), (15000, 30, 12)]"
    and "[(7078::real, 15::real, 6::real), (15000, 30, 12)] ! 1 = (15000, 30, 12)"
    by simp_all
  from callback_elements_fixed [OF this, of circular_propagate]
  show ?thesis by blast
qed

subsection \<open>Traces and frames\<close>





text \<open>
  Claim C10. In both scripts the third trace of the figure itself, the satellite marker
  shown before any animation, is pinned to the first sampled position, which is the
  orbit propagated to the time offset 0.
\<close>

theorem initial_marker_first_sample:
  "\<exists>fig orb fig' orb'.
     fst (update_orbit propagate sma earth_size satellite_size module_globals) = Inr fig \<and>
     create_orbit sma (default_eccentricity module_globals)
       (default_inclination module_globals) = Inr orb \<and>
     marker_pinned (data fig ! 2) (propagated_positions propagate orb ! 0) \<and>
     propagated_positions propagate orb ! 0 = propagate orb 0 \<and>
     time_span orb ! 0 = 0 \<and>
     simulator propagate = Inr fig' \<and> simulator_orbit = Inr orb' \<and>
     marker_pinned (data fig' ! 2) (propagated_positions propagate orb' ! 0) \<and>
     propagated_positions propagate orb' ! 0 = propagate orb' 0 \<and>
     time_span orb' ! 0 = 0"
proof -
  let ?orb = "\<lparr>attractor = Earth, sm_axis = sma, ecc = 1 / 10, inc = 45,
                raan = 0, argp = 0, nu = 0\<rparr>"
  let ?orb' = "\<lparr>attractor = Earth, sm_axis = body_R Earth + 700, ecc = 1 / 10, inc = 45,
                raan = 0, argp = 0, nu = 0\<rparr>"
  let ?ps = "propagated_positions propagate ?orb"
  let ?ps' = "propagated_positions propagate ?orb'"
  let ?fig = "dash_figure (map (\<lambda>pos. fst pos) ?ps) (map (\<lambda>pos. fst (snd pos)) ?ps)
                (map (\<lambda>pos. snd (snd pos)) ?ps) earth_size satellite_size"
  let ?fig' = "simulator_figure (map (\<lambda>pos. fst pos) ?ps') (map (\<lambda>pos. fst (snd pos)) ?ps')
                (map (\<lambda>pos. snd (snd pos)) ?ps')"
  have t0: "time_span orb ! 0 = 0" for orb
    by (simp add: time_span_def linspace_nth)
  have p0: "propagated_positions propagate orb ! 0 = propagate orb 0" for orb
    using t0 [of orb] by (simp add: propagated_positions_def length_time_span)
  have dash: "fst (update_orbit propagate sma earth_size satellite_size module_globals) = Inr ?fig"
    by (simp add: update_orbit_module Let_def)
  have sim: "simulator propagate = Inr ?fig'"
    by (simp add: simulator_built Let_def)
  have m: "marker_pinned (data ?fig ! 2) (?ps ! 0)"
    by (simp add: marker_pinned_def dash_figure_def length_propagated_positions)
  have m': "marker_pinned (data ?fig' ! 2) (?ps' ! 0)"
    by (simp add: marker_pinned_def simulator_figure_def Let_def length_propagated_positions)
  from dash sim m m' p0 [of ?orb] p0 [of ?orb'] t0 [of ?orb] t0 [of ?orb']
    create_orbit_defaults [of sma] simulator_orbit_built
  show ?thesis by blast
qed

end
